theory Spec2Isabelle
  imports Complex_Main
begin

section \<open>Errors and rounding\<close>

text \<open>The exceptions the modelled code can raise.\<close>

datatype py_error = ValueError | ZeroDivisionError | KeyError | IndexError | TypeError

text \<open>
  Python's \<open>round\<close> on a \<open>Fraction\<close> (\<open>Fraction.__round__\<close> with no digits):
  \<open>floor, remainder = divmod(numerator, denominator)\<close>, then the three-way test on
  \<open>remainder * 2\<close> against the denominator, with the half case going to the even
  neighbour. The fraction is reduced with a positive denominator, which is what
  \<open>quotient_of\<close> returns, and Python's \<open>divmod\<close> rounds towards minus infinity as
  \<open>div\<close> and \<open>mod\<close> on \<open>int\<close> do.
\<close>

definition py_round :: "rat \<Rightarrow> int" where
  "py_round x =
     (let (n, d) = quotient_of x;
          floor_part = n div d;
          remainder = n mod d
      in if remainder * 2 < d then floor_part
         else if remainder * 2 > d then floor_part + 1
         else if floor_part mod 2 = 0 then floor_part
         else floor_part + 1)"

section \<open>articulations.py\<close>

definition STACCATISSIMO :: rat where "STACCATISSIMO = Fract 1 7"
definition STACCATO :: rat where "STACCATO = Fract 2 7"
definition MEZZO_STACCATO :: rat where "MEZZO_STACCATO = Fract 3 7"
definition PORTATO :: rat where "PORTATO = Fract 4 7"
definition NON_LEGATO :: rat where "NON_LEGATO = Fract 5 7"
definition TENUTO :: rat where "TENUTO = Fract 6 7"
definition LEGATO :: rat where "LEGATO = 1"

section \<open>note.py\<close>

text \<open>
  The pitch is an object of the score library. The code only compares two pitches and
  reads \<open>freq440\<close>, a finite float; the float is modelled by the rational number it
  denotes, on which Python's \<open>round\<close> is the same round-half-to-even.
\<close>

record Pitch =
  pitch_name :: string
  freq440 :: rat

record Note =
  pitch :: Pitch
  offset :: rat
  duration :: rat
  articulation :: rat

text \<open>\<open>Note.__init__\<close>: stores the four arguments, the last one defaulting to \<open>NON_LEGATO\<close>.\<close>

definition Note_init :: "Pitch \<Rightarrow> rat \<Rightarrow> rat \<Rightarrow> rat \<Rightarrow> Note" where
  "Note_init p off dur art = \<lparr>pitch = p, offset = off, duration = dur, articulation = art\<rparr>"

definition Note_init_default :: "Pitch \<Rightarrow> rat \<Rightarrow> rat \<Rightarrow> Note" where
  "Note_init_default p off dur = Note_init p off dur NON_LEGATO"

definition end_offset :: "Note \<Rightarrow> rat" where
  "end_offset n = offset n + duration n"

text \<open>The articulation setter.\<close>

definition set_articulation :: "rat \<Rightarrow> Note \<Rightarrow> Note" where
  "set_articulation a n = n\<lparr>articulation := a\<rparr>"

definition tie_with :: "Note \<Rightarrow> Note \<Rightarrow> py_error + Note" where
  "tie_with self other =
     (if pitch self \<noteq> pitch other then Inl ValueError
      else let off = min (offset self) (offset other);
               dur = max (end_offset self - off) (end_offset other - off)
           in Inr (Note_init (pitch self) off dur (articulation other)))"

record MachineNote =
  frequency :: int
  offset_millis :: int
  duration_millis :: int

section \<open>tempo.py\<close>

record Tempo =
  subdivision :: rat
  beats_per_minute :: int

text \<open>
  \<open>Tempo.__init__\<close> stores \<open>Fraction(subdivision)\<close> and \<open>int(beats_per_minute)\<close>.
  \<open>Tempo_init\<close> is the constructor on a rate that is already an integer, where
  \<open>int(...)\<close> changes nothing: that is how \<open>quarter_equals\<close> and
  \<open>convert_to_subdivision\<close> call it. The one caller that passes something else is
  \<open>_get_tempo_from_stream\<close>, and the conversion is modelled there by \<open>py_int\<close>.
\<close>

definition Tempo_init :: "rat \<Rightarrow> int \<Rightarrow> Tempo" where
  "Tempo_init sub bpm = \<lparr>subdivision = sub, beats_per_minute = bpm\<rparr>"

definition quarter_equals :: "int \<Rightarrow> Tempo" where
  "quarter_equals bpm = Tempo_init (Fract 1 4) bpm"

text \<open>Division of fractions raises \<open>ZeroDivisionError\<close> on a zero divisor.\<close>

definition py_truediv :: "rat \<Rightarrow> rat \<Rightarrow> py_error + rat" where
  "py_truediv a b = (if b = 0 then Inl ZeroDivisionError else Inr (a / b))"

definition convert_to_subdivision :: "Tempo \<Rightarrow> rat \<Rightarrow> py_error + Tempo" where
  "convert_to_subdivision self sub =
     (case py_truediv (of_int (beats_per_minute self) * sub) (subdivision self) of
        Inl e \<Rightarrow> Inl e
      | Inr q \<Rightarrow> Inr (Tempo_init sub (py_round q)))"

definition wholes_to_milliseconds :: "Tempo \<Rightarrow> rat \<Rightarrow> py_error + int" where
  "wholes_to_milliseconds self dur =
     (case py_truediv dur (of_int (beats_per_minute self) * subdivision self) of
        Inl e \<Rightarrow> Inl e
      | Inr q \<Rightarrow> Inr (py_round (q * 60000)))"

text \<open>
  The arguments of the \<open>MachineNote\<close> constructor are evaluated left to right: the
  frequency, the offset in milliseconds, then the corrected duration.
\<close>

definition note_to_machine_note :: "Tempo \<Rightarrow> Note \<Rightarrow> py_error + MachineNote" where
  "note_to_machine_note self note =
     (let actual_duration_wholes = articulation note * duration note;
          f = py_round (freq440 (pitch note))
      in case wholes_to_milliseconds self (offset note) of
           Inl e \<Rightarrow> Inl e
         | Inr off_ms \<Rightarrow>
             (case wholes_to_milliseconds self actual_duration_wholes of
                Inl e \<Rightarrow> Inl e
              | Inr dur_ms \<Rightarrow>
                  Inr \<lparr>frequency = f, offset_millis = off_ms,
                       duration_millis = 100 + dur_ms - py_round (articulation note * 100)\<rparr>))"

section \<open>melody.py\<close>

subsection \<open>The score library's objects\<close>

text \<open>
  The classes of articulation marks the score library can attach to a note. The code
  tests \<open>type(a) is ...\<close>, the exact class, so each class is one constructor; every
  class outside the mapping below is \<open>OtherArticulation\<close> with its class name.
\<close>

datatype m21_articulation =
    Staccatissimo | Staccato | Spiccato | DetachedLegato | Tenuto
  | OtherArticulation string

text \<open>
  A note of the score: its pitch, its offset and length in quarter-lengths (floats or
  fractions, read exactly by \<open>Fraction(...)\<close>) and its articulation marks in order.
\<close>

record m21_note =
  m21_pitch :: Pitch
  m21_offset :: rat
  quarterLength :: rat
  articulations :: "m21_articulation list"

text \<open>
  What \<open>from_stream\<close> reads of a score, after \<open>flatten().stripTies()\<close>: the notes in
  stream order, the slurs, and the first tempo indication when there is one. The
  dictionary of the code is keyed by the note objects themselves; here a note is
  identified by its position in \<open>stream_notes\<close>.

  A slur is given by what \<open>getSpannedElementsByClass\<close> returns for it: the positions of
  the notes the spanner object holds, in order. These are the notes that were attached
  to the spanner, not the notes that sound under the slur: for a slur read from a score
  file they are the note the slur starts on and the note it ends on, and the notes in
  between are not among them. A held note that is not among the notes of the stream is
  a position out of range, where the dictionary lookup raises \<open>KeyError\<close>.

  A tempo indication is given by its sounding metronome mark: the quarter-length of the
  referent and \<open>numberSounding\<close>, which is a number or \<open>None\<close> (a metronome mark
  that only carries its printed number has no sounding number).
\<close>

record m21_stream =
  stream_notes :: "m21_note list"
  stream_slurs :: "nat list list"
  stream_tempo :: "(rat \<times> rat option) option"

definition MUSIC21_ARTICULATION_MAPPING :: "m21_articulation \<rightharpoonup> rat" where
  "MUSIC21_ARTICULATION_MAPPING =
     map_of [(Staccatissimo, STACCATISSIMO),
             (Staccato, STACCATO),
             (Spiccato, STACCATISSIMO),
             (DetachedLegato, NON_LEGATO),
             (Tenuto, TENUTO)]"

subsection \<open>Melody\<close>

record Melody =
  melody_notes :: "Note list"
  tempo :: Tempo

text \<open>\<open>sorted\<close> is stable, as \<open>sort_key\<close> is.\<close>

definition Melody_init :: "Note list \<Rightarrow> Tempo \<Rightarrow> Melody" where
  "Melody_init ns t = \<lparr>melody_notes = sort_key offset ns, tempo = t\<rparr>"

definition number_of_notes :: "Melody \<Rightarrow> nat" where
  "number_of_notes m = length (melody_notes m)"

text \<open>Indexing with \<open>[-1]\<close> raises \<open>IndexError\<close> on an empty list.\<close>

definition py_last :: "'a list \<Rightarrow> py_error + 'a" where
  "py_last xs = (if xs = [] then Inl IndexError else Inr (last xs))"

definition Melody_duration :: "Melody \<Rightarrow> py_error + rat" where
  "Melody_duration m =
     (case py_last (melody_notes m) of
        Inl e \<Rightarrow> Inl e
      | Inr n \<Rightarrow> Inr (offset n + duration n))"

fun machine_notes_of :: "Tempo \<Rightarrow> Note list \<Rightarrow> py_error + MachineNote list" where
  "machine_notes_of t [] = Inr []"
| "machine_notes_of t (n # ns) =
     (case note_to_machine_note t n of
        Inl e \<Rightarrow> Inl e
      | Inr mn \<Rightarrow>
          (case machine_notes_of t ns of
             Inl e \<Rightarrow> Inl e
           | Inr mns \<Rightarrow> Inr (mn # mns)))"

definition get_machine_notes :: "Melody \<Rightarrow> py_error + MachineNote list" where
  "get_machine_notes m = machine_notes_of (tempo m) (melody_notes m)"

definition get_actual_duration :: "Melody \<Rightarrow> py_error + int" where
  "get_actual_duration m =
     (case get_machine_notes m of
        Inl e \<Rightarrow> Inl e
      | Inr mnotes \<Rightarrow>
          (case py_last mnotes of
             Inl e \<Rightarrow> Inl e
           | Inr mn \<Rightarrow> Inr (offset_millis mn + duration_millis mn)))"

subsection \<open>from_stream\<close>

text \<open>
  The slur loop: every spanned note of a slur but the last (\<open>[:-1]\<close>, which is
  \<open>butlast\<close>, empty on an empty slur) is set to legato, slur after slur.
\<close>

fun mark_legato :: "nat list \<Rightarrow> Note list \<Rightarrow> py_error + Note list" where
  "mark_legato [] notes = Inr notes"
| "mark_legato (i # rest) notes =
     (if i < length notes
      then mark_legato rest (notes[i := set_articulation LEGATO (notes ! i)])
      else Inl KeyError)"

fun apply_slurs :: "nat list list \<Rightarrow> Note list \<Rightarrow> py_error + Note list" where
  "apply_slurs [] notes = Inr notes"
| "apply_slurs (slur # slurs) notes =
     (case mark_legato (butlast slur) notes of
        Inl e \<Rightarrow> Inl e
      | Inr notes' \<Rightarrow> apply_slurs slurs notes')"

text \<open>
  The body of the articulation loop for one note. The marks are objects, all truthy, so
  \<open>any(a for a in ... if type(a) is C)\<close> holds exactly when a mark of class \<open>C\<close> is
  present. \<open>next(..., None)\<close> is the first mark whose class is a key of the mapping;
  the lookup that follows finds it, so its missing-key branch is never taken.
\<close>

definition resolve_marking :: "m21_note \<Rightarrow> Note \<Rightarrow> Note" where
  "resolve_marking original_note note =
     (if articulations original_note \<noteq> [] then
        if list_ex (\<lambda>a. a = Staccato) (articulations original_note)
           \<and> list_ex (\<lambda>a. a = Tenuto) (articulations original_note)
        then set_articulation MEZZO_STACCATO note
        else (case find (\<lambda>a. MUSIC21_ARTICULATION_MAPPING a \<noteq> None)
                        (articulations original_note) of
                None \<Rightarrow> note
              | Some a \<Rightarrow>
                  (case MUSIC21_ARTICULATION_MAPPING a of
                     None \<Rightarrow> note
                   | Some r \<Rightarrow> set_articulation r note))
      else note)"

text \<open>
  \<open>int(x)\<close> as \<open>Tempo.__init__\<close> applies it to the rate: \<open>TypeError\<close> on
  \<open>None\<close>, and on a number the truncation towards zero of \<open>__trunc__\<close>
  (\<open>-(-n // d)\<close> for a negative numerator, \<open>n // d\<close> otherwise).
\<close>

definition py_int :: "rat option \<Rightarrow> py_error + int" where
  "py_int v =
     (case v of
        None \<Rightarrow> Inl TypeError
      | Some x \<Rightarrow>
          (let (n, d) = quotient_of x
           in if n < 0 then Inr (- ((- n) div d)) else Inr (n div d)))"

text \<open>
  \<open>_get_tempo_from_stream\<close>: no tempo indication gives \<open>None\<close>; otherwise the tempo
  is constructed from the referent and the sounding number, and the constructor's
  \<open>int(...)\<close> may raise.
\<close>

definition get_tempo_from_stream :: "m21_stream \<Rightarrow> py_error + Tempo option" where
  "get_tempo_from_stream s =
     (case stream_tempo s of
        None \<Rightarrow> Inr None
      | Some (referent, number_sounding) \<Rightarrow>
          (case py_int number_sounding of
             Inl e \<Rightarrow> Inl e
           | Inr bpm \<Rightarrow> Inr (Some (Tempo_init (referent / 4) bpm))))"

text \<open>
  The value the dictionary comprehension builds for one note of the score: quarter-lengths
  divided by four, default articulation.
\<close>

definition converted_note :: "m21_note \<Rightarrow> Note" where
  "converted_note n =
     Note_init_default (m21_pitch n) (m21_offset n / 4) (quarterLength n / 4)"

text \<open>
  The notes of \<open>from_stream\<close> as they stand before the constructor sorts them, in
  stream order: built with the default articulation, then the slur loop, then the
  articulation loop.
\<close>

definition infer_articulations :: "m21_stream \<Rightarrow> py_error + Note list" where
  "infer_articulations s =
     (let notes = map converted_note (stream_notes s)
      in case apply_slurs (stream_slurs s) notes of
           Inl e \<Rightarrow> Inl e
         | Inr notes' \<Rightarrow> Inr (map2 resolve_marking (stream_notes s) notes'))"

text \<open>
  \<open>from_stream\<close>: the notes and their articulations first, then the tempo, with the
  default of quarter = 120 when the score has none, then the constructor.
\<close>

definition from_stream :: "m21_stream \<Rightarrow> py_error + Melody" where
  "from_stream s =
     (case infer_articulations s of
        Inl e \<Rightarrow> Inl e
      | Inr notes \<Rightarrow>
          (case get_tempo_from_stream s of
             Inl e \<Rightarrow> Inl e
           | Inr found \<Rightarrow>
               Inr (Melody_init notes
                      (case found of
                         None \<Rightarrow> quarter_equals 120
                       | Some t \<Rightarrow> t))))"

section \<open>Definitions used to state the properties\<close>

text \<open>
  Rounding to the nearest integer with ties to the even neighbour, written with floor,
  ceiling and fractional part.
\<close>

definition round_half_even :: "rat \<Rightarrow> int" where
  "round_half_even x =
     (if frac x < 1 / 2 then \<lfloor>x\<rfloor>
      else if 1 / 2 < frac x then \<lceil>x\<rceil>
      else if even \<lfloor>x\<rfloor> then \<lfloor>x\<rfloor> else \<lceil>x\<rceil>)"

text \<open>
  The millisecond conversion as the specification writes it:
  \<open>round(duration / (beats_per_minute * subdivision) * 60000)\<close>.
\<close>

definition millis_of_wholes :: "Tempo \<Rightarrow> rat \<Rightarrow> int" where
  "millis_of_wholes t d =
     round_half_even (d / (of_int (beats_per_minute t) * subdivision t) * 60000)"

text \<open>
  Converting a tempo to a subdivision and back to its own, keeping the resulting rate.
\<close>

definition round_trip_bpm :: "Tempo \<Rightarrow> rat \<Rightarrow> py_error + int" where
  "round_trip_bpm t s =
     (case convert_to_subdivision t s of
        Inl e \<Rightarrow> Inl e
      | Inr t' \<Rightarrow>
          (case convert_to_subdivision t' (subdivision t) of
             Inl e \<Rightarrow> Inl e
           | Inr t'' \<Rightarrow> Inr (beats_per_minute t'')))"

text \<open>
  The notes that sound under a slur, in a score of one part without chords: the
  positions from the note the slur starts on to the note it ends on. The slur is given
  as in \<open>stream_slurs\<close>, by the notes its spanner holds.
\<close>

definition notes_under_slur :: "nat list \<Rightarrow> nat list" where
  "notes_under_slur sl = (if sl = [] then [] else [hd sl ..< Suc (last sl)])"

section \<open>Rounding\<close>

lemma py_round_alt:
  "py_round x = (if frac x < 1/2 then \<lfloor>x\<rfloor> else if frac x > 1/2 then \<lfloor>x\<rfloor> + 1
                 else if even \<lfloor>x\<rfloor> then \<lfloor>x\<rfloor> else \<lfloor>x\<rfloor> + 1)"
proof -
  obtain n d where q: "quotient_of x = (n, d)" by (cases "quotient_of x")
  have d: "0 < d" using q quotient_of_denom_pos by blast
  have x: "x = of_int n / of_int d" using q quotient_of_div by blast
  have fl: "\<lfloor>x\<rfloor> = n div d" unfolding x by (simp add: floor_divide_of_int_eq)
  have "frac x = x - of_int (n div d)" by (simp add: frac_def fl)
  also have "\<dots> = of_int (n mod d) / of_int d"
    unfolding x using d by (simp add: field_simps flip: of_int_mult of_int_add )
  finally have fr: "frac x = of_int (n mod d) / of_int d" .
  have "frac x < 1/2 \<longleftrightarrow> (of_int ((n mod d) * 2) :: rat) < of_int d"
    unfolding fr using d by (simp add: field_simps)
  then have lt: "frac x < 1/2 \<longleftrightarrow> (n mod d) * 2 < d"
    by (simp only: of_int_less_iff)
  have "frac x > 1/2 \<longleftrightarrow> (of_int ((n mod d) * 2) :: rat) > of_int d"
    unfolding fr using d by (simp add: field_simps)
  then have gt: "frac x > 1/2 \<longleftrightarrow> (n mod d) * 2 > d"
    by (simp only: of_int_less_iff)
  show ?thesis
    unfolding py_round_def q Let_def prod.case lt gt fl
    by (simp add: even_iff_mod_2_eq_zero)
qed

lemma py_round_half_even: "py_round x = round_half_even x"
proof (cases "x = of_int \<lfloor>x\<rfloor>")
  case True
  then have "frac x = 0" by (simp add: frac_def)
  then show ?thesis by (simp add: py_round_alt round_half_even_def del: frac_eq_0_iff)
next
  case False
  then have "\<lceil>x\<rceil> = \<lfloor>x\<rfloor> + 1" by (simp add: ceiling_altdef)
  then show ?thesis by (simp add: py_round_alt round_half_even_def)
qed

lemma py_round_err: "\<bar>of_int (py_round x) - x\<bar> \<le> 1/2"
proof -
  define k where "k = (of_int \<lfloor>x\<rfloor> :: rat)"
  define f where "f = frac x"
  have a: "x = k + f" by (simp add: frac_def k_def f_def)
  have b: "0 \<le> f" "f < 1" by (simp_all add: frac_lt_1 f_def)
  have "of_int (py_round x) = (if f < 1/2 then k else if f > 1/2 then k + 1
                 else if even \<lfloor>x\<rfloor> then k else k + 1)"
    unfolding py_round_alt k_def f_def by simp
  then show ?thesis using a b by (auto simp: abs_if)
qed

lemma py_round_of_int: "py_round (of_int k) = k"
  by (simp add: py_round_alt)

lemma py_round_mono: 
  assumes "x \<le> y" shows "py_round x \<le> py_round y"
proof (cases "\<lfloor>x\<rfloor> = \<lfloor>y\<rfloor>")
  case True
  have "frac x \<le> frac y" using assms True by (simp add: frac_def)
  then show ?thesis unfolding py_round_alt True by auto
next
  case False
  have "\<lfloor>x\<rfloor> \<le> \<lfloor>y\<rfloor>" using assms by (rule floor_mono)
  then have lt: "\<lfloor>x\<rfloor> + 1 \<le> \<lfloor>y\<rfloor>" using False by simp
  have "py_round x \<le> \<lfloor>x\<rfloor> + 1" unfolding py_round_alt by simp
  moreover have "\<lfloor>y\<rfloor> \<le> py_round y" unfolding py_round_alt by simp
  ultimately show ?thesis using lt by linarith
qed

lemma py_round_nonneg: "0 \<le> x \<Longrightarrow> 0 \<le> py_round x"
  using py_round_mono[of 0 x] py_round_of_int[of 0] by simp

lemma wholes_to_milliseconds_ok:
  assumes "0 < subdivision t" and "0 < beats_per_minute t"
  shows "wholes_to_milliseconds t d = Inr (millis_of_wholes t d)"
proof -
  have "(of_int (beats_per_minute t) :: rat) * subdivision t \<noteq> 0" using assms by simp
  then show ?thesis
    by (simp add: wholes_to_milliseconds_def py_truediv_def millis_of_wholes_def
        py_round_half_even)
qed

section \<open>Machine-note projection\<close>

text \<open>
  C1. For a tempo with positive subdivision and positive rate, the projection of any
  note succeeds and returns the rounded pitch frequency, the offset converted to
  milliseconds, and \<open>100 + millis(articulation * duration) - round(articulation * 100)\<close>,
  every quantity exact until its final rounding to the nearest integer (ties to even).
  A note with articulation 1 gets the plain millisecond conversion of its written
  duration.
\<close>

theorem note_to_machine_note_formula:
  assumes "0 < subdivision t" and "0 < beats_per_minute t"
  shows "note_to_machine_note t n =
           Inr \<lparr>frequency = round_half_even (freq440 (pitch n)),
                offset_millis = millis_of_wholes t (offset n),
                duration_millis = 100 + millis_of_wholes t (articulation n * duration n)
                                  - round_half_even (articulation n * 100)\<rparr>
         \<and> (articulation n = 1 \<longrightarrow>
              note_to_machine_note t n =
                Inr \<lparr>frequency = round_half_even (freq440 (pitch n)),
                     offset_millis = millis_of_wholes t (offset n),
                     duration_millis = millis_of_wholes t (duration n)\<rparr>)"
proof -
  have main: "note_to_machine_note t n =
           Inr \<lparr>frequency = round_half_even (freq440 (pitch n)),
                offset_millis = millis_of_wholes t (offset n),
                duration_millis = 100 + millis_of_wholes t (articulation n * duration n)
                                  - round_half_even (articulation n * 100)\<rparr>"
    by (simp add: note_to_machine_note_def wholes_to_milliseconds_ok [OF assms]
        py_round_half_even)
  have "round_half_even 100 = 100"
    using py_round_of_int [of 100] by (simp add: py_round_half_even)
  then show ?thesis using main by simp
qed

theorem note_to_machine_note_formula_witness:
  "0 < subdivision (quarter_equals 120) \<and> 0 < beats_per_minute (quarter_equals 120)
   \<and> note_to_machine_note (quarter_equals 120)
        (Note_init \<lparr>pitch_name = ''A4'', freq440 = 440\<rparr> 0 (Fract 1 4) 1)
      = Inr \<lparr>frequency = 440, offset_millis = 0, duration_millis = 500\<rparr>"
proof -
  let ?t = "quarter_equals 120"
  let ?n = "Note_init \<lparr>pitch_name = ''A4'', freq440 = 440\<rparr> 0 (Fract 1 4) 1"
  have a: "0 < subdivision ?t" by code_simp
  have b: "0 < beats_per_minute ?t" by code_simp
  have c: "articulation ?n = 1" by code_simp
  have e: "round_half_even (freq440 (pitch ?n)) = 440" "millis_of_wholes ?t (offset ?n) = 0"
    "millis_of_wholes ?t (duration ?n) = 500"
    by code_simp+
  have r: "note_to_machine_note ?t ?n
             = Inr \<lparr>frequency = 440, offset_millis = 0, duration_millis = 500\<rparr>"
    using note_to_machine_note_formula [OF a b, of ?n, THEN conjunct2] c e by simp
  show ?thesis by (intro conjI a b r)
qed

text \<open>
  C2. The claim as stated: the single note of 440 Hz at offset 0, a quarter note long,
  with the default articulation 5/7, under quarter = 120, projects to duration 208 ms.
  The code computes another duration, so the stated value is refuted here.
\<close>

theorem single_note_projection_counterexample:
  "note_to_machine_note (quarter_equals 120)
     (Note_init_default \<lparr>pitch_name = ''A4'', freq440 = 440\<rparr> 0 (Fract 1 4))
   \<noteq> Inr \<lparr>frequency = 440, offset_millis = 0, duration_millis = 208\<rparr>"
  by code_simp

text \<open>
  C2, amended. The same note projects to frequency 440, offset 0 ms and duration
  \<open>100 + round(2500/7) - round(500/7) = 100 + 357 - 71 = 386\<close> ms.
\<close>

theorem single_note_projection:
  "note_to_machine_note (quarter_equals 120)
     (Note_init_default \<lparr>pitch_name = nm, freq440 = 440\<rparr> 0 (Fract 1 4))
   = Inr \<lparr>frequency = 440, offset_millis = 0, duration_millis = 386\<rparr>"
proof -
  have "py_round 440 = 440" "py_round (0 / (of_int 120 * Fract 1 4) * 60000) = 0"
    "py_round (NON_LEGATO * Fract 1 4 / (of_int 120 * Fract 1 4) * 60000) = 357"
    "py_round (NON_LEGATO * 100) = 71" "of_int 120 * Fract 1 4 \<noteq> (0::rat)"
    by code_simp+
  then show ?thesis
    by (simp add: note_to_machine_note_def wholes_to_milliseconds_def py_truediv_def
        Note_init_default_def Note_init_def quarter_equals_def Tempo_init_def)
qed

text \<open>
  C10. For a tempo with positive subdivision and rate and a note with positive duration
  and articulation in (0, 1], the conversion of the sounding duration is non-negative,
  \<open>round(articulation * 100)\<close> is at most 100, and so the projected duration in
  milliseconds is non-negative.
\<close>

theorem duration_millis_nonneg:
  assumes "0 < subdivision t" and "0 < beats_per_minute t"
    and "0 < duration n" and "0 < articulation n" and "articulation n \<le> 1"
  shows "\<exists>w mn. wholes_to_milliseconds t (articulation n * duration n) = Inr w \<and> 0 \<le> w
           \<and> py_round (articulation n * 100) \<le> 100
           \<and> note_to_machine_note t n = Inr mn \<and> 0 \<le> duration_millis mn"
proof -
  let ?q = "(of_int (beats_per_minute t) :: rat) * subdivision t"
  let ?w = "py_round (articulation n * duration n / ?q * 60000)"
  have q: "0 < ?q" using assms by simp
  have w: "wholes_to_milliseconds t (articulation n * duration n) = Inr ?w"
    using assms by (simp add: wholes_to_milliseconds_def py_truediv_def)
  have "0 \<le> articulation n * duration n / ?q * 60000" using assms q by simp
  then have w0: "0 \<le> ?w" by (rule py_round_nonneg)
  have "articulation n * 100 \<le> of_int 100" using assms by simp
  then have "py_round (articulation n * 100) \<le> py_round (of_int 100)" by (rule py_round_mono)
  then have r: "py_round (articulation n * 100) \<le> 100" by (simp only: py_round_of_int)
  obtain o_ms where o: "wholes_to_milliseconds t (offset n) = Inr o_ms"
    using assms by (simp add: wholes_to_milliseconds_def py_truediv_def)
  have m: "note_to_machine_note t n = Inr \<lparr>frequency = py_round (freq440 (pitch n)),
        offset_millis = o_ms, duration_millis = 100 + ?w - py_round (articulation n * 100)\<rparr>"
    by (simp add: note_to_machine_note_def w o)
  show ?thesis using w w0 r m by simp
qed

text \<open>
  The bound is reached: a legato note so short that its sounding duration rounds to
  0 ms is projected to a duration of exactly 0 ms.
\<close>

theorem duration_millis_nonneg_witness:
  "0 < subdivision (quarter_equals 120) \<and> 0 < beats_per_minute (quarter_equals 120)
   \<and> 0 < duration (Note_init \<lparr>pitch_name = ''A4'', freq440 = 440\<rparr> 0 (Fract 1 1000000) 1)
   \<and> 0 < articulation (Note_init \<lparr>pitch_name = ''A4'', freq440 = 440\<rparr> 0 (Fract 1 1000000) 1)
   \<and> articulation (Note_init \<lparr>pitch_name = ''A4'', freq440 = 440\<rparr> 0 (Fract 1 1000000) 1) \<le> 1
   \<and> (\<exists>mn. note_to_machine_note (quarter_equals 120)
               (Note_init \<lparr>pitch_name = ''A4'', freq440 = 440\<rparr> 0 (Fract 1 1000000) 1) = Inr mn
            \<and> 0 \<le> duration_millis mn \<and> duration_millis mn = 0)"
proof -
  let ?t = "quarter_equals 120"
  let ?n = "Note_init \<lparr>pitch_name = ''A4'', freq440 = 440\<rparr> 0 (Fract 1 1000000) 1"
  have a: "0 < subdivision ?t" by code_simp
  have b: "0 < beats_per_minute ?t" by code_simp
  have c: "0 < duration ?n" by code_simp
  have d: "0 < articulation ?n" by code_simp
  have e: "articulation ?n \<le> 1" by code_simp
  have v: "note_to_machine_note ?t ?n
             = Inr \<lparr>frequency = 440, offset_millis = 0, duration_millis = 0\<rparr>"
    by code_simp
  have "\<exists>mn. note_to_machine_note ?t ?n = Inr mn \<and> 0 \<le> duration_millis mn"
    using duration_millis_nonneg [OF a b c d e] by blast
  then have r: "\<exists>mn. note_to_machine_note ?t ?n = Inr mn \<and> 0 \<le> duration_millis mn
                  \<and> duration_millis mn = 0"
    using v by simp
  show ?thesis by (intro conjI a b c d e r)
qed

section \<open>Tempo conversion\<close>

lemma convert_to_subdivision_ok:
  "subdivision t \<noteq> 0 \<Longrightarrow> convert_to_subdivision t s
     = Inr (Tempo_init s (py_round (of_int (beats_per_minute t) * s / subdivision t)))"
  by (simp add: convert_to_subdivision_def py_truediv_def)

text \<open>
  C9. The claim as stated: the round trip through another subdivision changes the rate
  by at most 1. Quarter = 126 taken to sixteenths is 31.5, rounded to 32, and comes back
  as 128.
\<close>

theorem round_trip_counterexample:
  "round_trip_bpm (quarter_equals 126) (Fract 1 16) = Inr 128
   \<and> \<not> \<bar>128 - beats_per_minute (quarter_equals 126)\<bar> \<le> 1"
  by code_simp

text \<open>
  C9, amended. For positive subdivisions and rate the round trip succeeds and its rate
  \<open>b\<close> satisfies \<open>2 * s * |b - bpm| \<le> subdivision + s\<close>, that is
  \<open>|b - bpm| \<le> (subdivision / s + 1) / 2\<close>; it is within 1 of the original
  whenever the intermediate subdivision \<open>s\<close> is at least the tempo's own.
\<close>

theorem round_trip_bound:
  assumes "0 < subdivision t" and "0 < beats_per_minute t" and "0 < s"
  shows "\<exists>b. round_trip_bpm t s = Inr b
           \<and> 2 * s * \<bar>of_int b - of_int (beats_per_minute t)\<bar> \<le> subdivision t + s
           \<and> (subdivision t \<le> s \<longrightarrow> \<bar>b - beats_per_minute t\<bar> \<le> 1)"
proof -
  define u where "u = subdivision t"
  define m where "m = (of_int (beats_per_minute t) :: rat)"
  define b1 where "b1 = py_round (m * s / u)"
  define b2 where "b2 = py_round (of_int b1 * u / s)"
  have u: "0 < u" using assms by (simp add: u_def)
  have s: "0 < s" by fact
  have rt: "round_trip_bpm t s = Inr b2"
    using u s
    by (simp add: round_trip_bpm_def convert_to_subdivision_ok u_def [symmetric]
        m_def [symmetric] b1_def b2_def Tempo_init_def)
  have e1: "\<bar>of_int b1 - m * s / u\<bar> \<le> 1 / 2" unfolding b1_def by (rule py_round_err)
  have e2: "\<bar>of_int b2 - of_int b1 * u / s\<bar> \<le> 1 / 2" unfolding b2_def by (rule py_round_err)
  have "\<bar>of_int b1 * u / s - m\<bar> = \<bar>of_int b1 - m * s / u\<bar> * (u / s)"
  proof -
    have "of_int b1 * u / s - m = (of_int b1 - m * s / u) * (u / s)"
      using u s by (simp add: field_simps)
    then show ?thesis using u s by (simp add: abs_mult)
  qed
  also have "\<dots> \<le> 1 / 2 * (u / s)"
    using e1 u s by (intro mult_right_mono) simp_all
  finally have e3: "\<bar>of_int b1 * u / s - m\<bar> \<le> u / (2 * s)" by simp
  have "of_int b2 - m = (of_int b2 - of_int b1 * u / s) + (of_int b1 * u / s - m)"
    by simp
  then have "\<bar>of_int b2 - m\<bar> \<le> \<bar>of_int b2 - of_int b1 * u / s\<bar> + \<bar>of_int b1 * u / s - m\<bar>"
    by (metis abs_triangle_ineq)
  then have e4: "\<bar>of_int b2 - m\<bar> \<le> 1 / 2 + u / (2 * s)"
    using add_mono [OF e2 e3] by (rule order_trans)
  have "2 * s * \<bar>of_int b2 - m\<bar> \<le> 2 * s * (1 / 2 + u / (2 * s))"
    using e4 s by (intro mult_left_mono) simp_all
  also have "\<dots> = u + s" using s by (simp add: field_simps)
  finally have bound: "2 * s * \<bar>of_int b2 - m\<bar> \<le> u + s" .
  have close: "\<bar>b2 - beats_per_minute t\<bar> \<le> 1" if "u \<le> s"
  proof -
    have "u / (2 * s) \<le> 1 / 2" using that s by (simp add: field_simps)
    then have "1 / 2 + u / (2 * s) \<le> 1" by simp
    with e4 have "\<bar>(of_int b2 :: rat) - m\<bar> \<le> 1" by (rule order_trans)
    then have "\<bar>(of_int (b2 - beats_per_minute t) :: rat)\<bar> \<le> of_int 1"
      by (simp add: m_def)
    then show ?thesis by (simp only: of_int_abs [symmetric] of_int_le_iff)
  qed
  show ?thesis
    using rt bound close by (simp add: u_def m_def)
qed

theorem round_trip_bound_witness:
  "0 < subdivision (quarter_equals 10) \<and> 0 < beats_per_minute (quarter_equals 10)
   \<and> (0::rat) < Fract 1 2 \<and> subdivision (quarter_equals 10) \<le> Fract 1 2
   \<and> (\<exists>b. round_trip_bpm (quarter_equals 10) (Fract 1 2) = Inr b
          \<and> \<bar>b - beats_per_minute (quarter_equals 10)\<bar> \<le> 1)"
proof -
  let ?t = "quarter_equals 10"
  have a: "0 < subdivision ?t" by code_simp
  have b: "0 < beats_per_minute ?t" by code_simp
  have c: "(0::rat) < Fract 1 2" by code_simp
  have d: "subdivision ?t \<le> Fract 1 2" by code_simp
  have r: "\<exists>b. round_trip_bpm ?t (Fract 1 2) = Inr b \<and> \<bar>b - beats_per_minute ?t\<bar> \<le> 1"
    using round_trip_bound [OF a b c] d by blast
  show ?thesis by (intro conjI a b c d r)
qed

section \<open>Ties\<close>

text \<open>
  C5. For two notes of equal pitch, \<open>tie_with\<close> returns the note at the smaller of the
  two offsets, lasting to the later of the two ends, with the articulation of the second
  operand; for two notes of different pitch it fails with \<open>ValueError\<close>.
\<close>

theorem tie_with_result:
  "(pitch a = pitch b \<longrightarrow>
      tie_with a b = Inr \<lparr>pitch = pitch a,
                          offset = min (offset a) (offset b),
                          duration = max (end_offset a) (end_offset b)
                                     - min (offset a) (offset b),
                          articulation = articulation b\<rparr>)
   \<and> (pitch a \<noteq> pitch b \<longrightarrow> tie_with a b = Inl ValueError)"
proof -
  have "max (end_offset a - m) (end_offset b - m) = max (end_offset a) (end_offset b) - m"
    for m
    by (simp add: max_def)
  then show ?thesis by (simp add: tie_with_def Note_init_def Let_def)
qed

theorem tie_with_result_witness:
  "pitch (Note_init \<lparr>pitch_name = ''A4'', freq440 = 440\<rparr> 0 (Fract 1 4) (Fract 2 7))
     = pitch (Note_init \<lparr>pitch_name = ''A4'', freq440 = 440\<rparr> (Fract 1 4) (Fract 1 2) 1)
   \<and> tie_with (Note_init \<lparr>pitch_name = ''A4'', freq440 = 440\<rparr> 0 (Fract 1 4) (Fract 2 7))
               (Note_init \<lparr>pitch_name = ''A4'', freq440 = 440\<rparr> (Fract 1 4) (Fract 1 2) 1)
       = Inr \<lparr>pitch = \<lparr>pitch_name = ''A4'', freq440 = 440\<rparr>, offset = 0,
              duration = Fract 3 4, articulation = 1\<rparr>
   \<and> pitch (Note_init \<lparr>pitch_name = ''A4'', freq440 = 440\<rparr> 0 (Fract 1 4) (Fract 2 7))
     \<noteq> pitch (Note_init \<lparr>pitch_name = ''B4'', freq440 = 494\<rparr> (Fract 1 4) (Fract 1 2) 1)
   \<and> tie_with (Note_init \<lparr>pitch_name = ''A4'', freq440 = 440\<rparr> 0 (Fract 1 4) (Fract 2 7))
               (Note_init \<lparr>pitch_name = ''B4'', freq440 = 494\<rparr> (Fract 1 4) (Fract 1 2) 1)
       = Inl ValueError"
proof -
  let ?a = "Note_init \<lparr>pitch_name = ''A4'', freq440 = 440\<rparr> 0 (Fract 1 4) (Fract 2 7)"
  let ?b = "Note_init \<lparr>pitch_name = ''A4'', freq440 = 440\<rparr> (Fract 1 4) (Fract 1 2) 1"
  let ?c = "Note_init \<lparr>pitch_name = ''B4'', freq440 = 494\<rparr> (Fract 1 4) (Fract 1 2) 1"
  have same: "pitch ?a = pitch ?b" by (simp add: Note_init_def)
  have diff: "pitch ?a \<noteq> pitch ?c" by (simp add: Note_init_def)
  have v: "min (offset ?a) (offset ?b) = 0"
    "max (end_offset ?a) (end_offset ?b) - min (offset ?a) (offset ?b) = Fract 3 4"
    "pitch ?a = \<lparr>pitch_name = ''A4'', freq440 = 440\<rparr>" "articulation ?b = 1"
    by code_simp+
  have r1: "tie_with ?a ?b = Inr \<lparr>pitch = \<lparr>pitch_name = ''A4'', freq440 = 440\<rparr>, offset = 0,
              duration = Fract 3 4, articulation = 1\<rparr>"
    using tie_with_result [of ?a ?b, THEN conjunct1] same v by simp
  have r2: "tie_with ?a ?c = Inl ValueError"
    using tie_with_result [of ?a ?c, THEN conjunct2] diff by simp
  show ?thesis by (intro conjI same r1 diff r2)
qed

text \<open>
  C6. For two notes of equal pitch, tying them in either order succeeds with the same
  offset and the same duration; the result carries the articulation of the second
  operand, so the two results differ as soon as the articulations do. When the first
  note ends before the second starts, the result runs from the start of the first to
  the end of the second, across the gap.
\<close>

theorem tie_with_commutes_on_interval:
  assumes "pitch a = pitch b"
  shows "\<exists>ab ba. tie_with a b = Inr ab \<and> tie_with b a = Inr ba
           \<and> offset ab = offset ba \<and> duration ab = duration ba
           \<and> articulation ab = articulation b \<and> articulation ba = articulation a
           \<and> (articulation a \<noteq> articulation b \<longrightarrow> ab \<noteq> ba)
           \<and> (0 < duration a \<and> 0 < duration b \<and> end_offset a \<le> offset b \<longrightarrow>
                offset ab = offset a \<and> end_offset ab = end_offset b)"
proof -
  let ?off = "min (offset a) (offset b)"
  let ?dur = "max (end_offset a - ?off) (end_offset b - ?off)"
  have ab: "tie_with a b = Inr (Note_init (pitch a) ?off ?dur (articulation b))"
    using assms by (simp add: tie_with_def Let_def)
  have ba: "tie_with b a = Inr (Note_init (pitch b) ?off ?dur (articulation a))"
    using assms by (simp add: tie_with_def Let_def min.commute max.commute)
  have gap: "offset (Note_init (pitch a) ?off ?dur (articulation b)) = offset a
             \<and> end_offset (Note_init (pitch a) ?off ?dur (articulation b)) = end_offset b"
    if "0 < duration a" "0 < duration b" "end_offset a \<le> offset b"
    using that by (simp add: Note_init_def end_offset_def min_def max_def)
  show ?thesis
    unfolding ab ba using gap by (auto simp: Note_init_def)
qed

theorem tie_with_commutes_on_interval_witness:
  "pitch (Note_init \<lparr>pitch_name = ''A4'', freq440 = 440\<rparr> 0 (Fract 1 4) (Fract 2 7))
     = pitch (Note_init \<lparr>pitch_name = ''A4'', freq440 = 440\<rparr> 1 (Fract 1 2) 1)
   \<and> (\<exists>ab ba.
         tie_with (Note_init \<lparr>pitch_name = ''A4'', freq440 = 440\<rparr> 0 (Fract 1 4) (Fract 2 7))
                  (Note_init \<lparr>pitch_name = ''A4'', freq440 = 440\<rparr> 1 (Fract 1 2) 1) = Inr ab
       \<and> tie_with (Note_init \<lparr>pitch_name = ''A4'', freq440 = 440\<rparr> 1 (Fract 1 2) 1)
                  (Note_init \<lparr>pitch_name = ''A4'', freq440 = 440\<rparr> 0 (Fract 1 4) (Fract 2 7)) = Inr ba
       \<and> offset ab = offset ba \<and> duration ab = duration ba \<and> ab \<noteq> ba
       \<and> offset ab = 0 \<and> end_offset ab = Fract 3 2)"
proof -
  let ?a = "Note_init \<lparr>pitch_name = ''A4'', freq440 = 440\<rparr> 0 (Fract 1 4) (Fract 2 7)"
  let ?b = "Note_init \<lparr>pitch_name = ''A4'', freq440 = 440\<rparr> 1 (Fract 1 2) 1"
  have same: "pitch ?a = pitch ?b" by (simp add: Note_init_def)
  have h: "articulation ?a \<noteq> articulation ?b" "0 < duration ?a" "0 < duration ?b"
    "end_offset ?a \<le> offset ?b" "offset ?a = 0" "end_offset ?b = Fract 3 2"
    by code_simp+
  obtain ab ba where r: "tie_with ?a ?b = Inr ab" "tie_with ?b ?a = Inr ba"
    "offset ab = offset ba" "duration ab = duration ba"
    "articulation ?a \<noteq> articulation ?b \<longrightarrow> ab \<noteq> ba"
    "0 < duration ?a \<and> 0 < duration ?b \<and> end_offset ?a \<le> offset ?b \<longrightarrow>
       offset ab = offset ?a \<and> end_offset ab = end_offset ?b"
    using tie_with_commutes_on_interval [OF same] by blast
  have "ab \<noteq> ba" "offset ab = 0" "end_offset ab = Fract 3 2"
    using r(5,6) h by simp_all
  then show ?thesis using same r(1-4) by blast
qed

section \<open>Melody construction\<close>

text \<open>
  C3. The claim as stated: constructing a melody from no notes fails. A score without
  notes is converted without error to a melody of zero notes.
\<close>

theorem empty_melody_counterexample:
  "from_stream \<lparr>stream_notes = [], stream_slurs = [], stream_tempo = None\<rparr>
     = Inr (Melody_init [] (quarter_equals 120))
   \<and> number_of_notes (Melody_init [] (quarter_equals 120)) = 0"
  by (simp add: from_stream_def infer_articulations_def get_tempo_from_stream_def
      Melody_init_def number_of_notes_def)

text \<open>
  C3, amended. The constructor accepts the empty sequence and returns a melody with
  zero notes; what fails, with \<open>IndexError\<close>, is reading the duration or the actual
  duration of that melody.
\<close>

theorem empty_melody:
  "Melody_init [] t = \<lparr>melody_notes = [], tempo = t\<rparr>
   \<and> number_of_notes (Melody_init [] t) = 0
   \<and> Melody_duration (Melody_init [] t) = Inl IndexError
   \<and> get_actual_duration (Melody_init [] t) = Inl IndexError"
  by (simp add: Melody_init_def number_of_notes_def Melody_duration_def py_last_def
      get_actual_duration_def get_machine_notes_def)

section \<open>Articulation inference\<close>

lemma set_articulation_twice:
  "set_articulation a (set_articulation a n) = set_articulation a n"
  by (simp add: set_articulation_def)

lemma mark_legato_result:
  "mark_legato js ns = Inr ns' \<Longrightarrow>
     length ns' = length ns
     \<and> (\<forall>i<length ns. ns' ! i = (if i \<in> set js then set_articulation LEGATO (ns ! i)
                                  else ns ! i))"
proof (induction js arbitrary: ns)
  case Nil
  then show ?case by simp
next
  case (Cons j js)
  let ?ns = "ns[j := set_articulation LEGATO (ns ! j)]"
  from Cons.prems have j: "j < length ns" and run: "mark_legato js ?ns = Inr ns'"
    by (simp_all split: if_splits)
  from Cons.IH [OF run] have len: "length ns' = length ns"
    and nth: "\<And>i. i < length ns \<Longrightarrow>
                ns' ! i = (if i \<in> set js then set_articulation LEGATO (?ns ! i) else ?ns ! i)"
    by simp_all
  show ?case
  proof (intro conjI allI impI)
    show "length ns' = length ns" by (rule len)
  next
    fix i assume i: "i < length ns"
    show "ns' ! i = (if i \<in> set (j # js) then set_articulation LEGATO (ns ! i) else ns ! i)"
      using nth [OF i] i j
      by (cases "i = j") (simp_all add: set_articulation_twice)
  qed
qed

lemma mark_legato_succeeds:
  "\<forall>i\<in>set js. i < length ns \<Longrightarrow> \<exists>ns'. mark_legato js ns = Inr ns'"
  by (induction js arbitrary: ns) simp_all

lemma apply_slurs_result:
  "apply_slurs slurs ns = Inr ns' \<Longrightarrow>
     length ns' = length ns
     \<and> (\<forall>i<length ns. ns' ! i = (if \<exists>sl\<in>set slurs. i \<in> set (butlast sl)
                                  then set_articulation LEGATO (ns ! i) else ns ! i))"
proof (induction slurs arbitrary: ns)
  case Nil
  then show ?case by simp
next
  case (Cons sl slurs)
  from Cons.prems obtain mid where mid: "mark_legato (butlast sl) ns = Inr mid"
    and run: "apply_slurs slurs mid = Inr ns'"
    by (auto split: sum.splits)
  note m = mark_legato_result [OF mid]
  note r = Cons.IH [OF run]
  show ?case
  proof (intro conjI allI impI)
    show "length ns' = length ns" using m r by simp
  next
    fix i assume i: "i < length ns"
    then have "i < length mid" using m by simp
    then have "ns' ! i = (if \<exists>sl\<in>set slurs. i \<in> set (butlast sl)
                          then set_articulation LEGATO (mid ! i) else mid ! i)"
      using r by simp
    moreover have "mid ! i = (if i \<in> set (butlast sl) then set_articulation LEGATO (ns ! i)
                              else ns ! i)"
      using m i by simp
    ultimately show "ns' ! i = (if \<exists>sl\<in>set (sl # slurs). i \<in> set (butlast sl)
                                then set_articulation LEGATO (ns ! i) else ns ! i)"
      by (simp add: set_articulation_twice)
  qed
qed

lemma apply_slurs_succeeds:
  "\<forall>sl\<in>set slurs. \<forall>i\<in>set (butlast sl). i < length ns \<Longrightarrow>
     \<exists>ns'. apply_slurs slurs ns = Inr ns'"
proof (induction slurs arbitrary: ns)
  case Nil
  then show ?case by simp
next
  case (Cons sl slurs)
  then have "\<forall>i\<in>set (butlast sl). i < length ns" by simp
  then obtain mid where mid: "mark_legato (butlast sl) ns = Inr mid"
    using mark_legato_succeeds by blast
  then have "length mid = length ns" using mark_legato_result by blast
  then have "\<forall>sl\<in>set slurs. \<forall>i\<in>set (butlast sl). i < length mid"
    using Cons.prems by simp
  from Cons.IH [OF this] show ?case by (simp add: mid)
qed

lemma infer_articulations_nth:
  assumes "infer_articulations s = Inr ns"
  shows "length ns = length (stream_notes s)"
    and "i < length (stream_notes s) \<Longrightarrow>
         ns ! i = resolve_marking (stream_notes s ! i)
                    (if \<exists>sl\<in>set (stream_slurs s). i \<in> set (butlast sl)
                     then set_articulation LEGATO (converted_note (stream_notes s ! i))
                     else converted_note (stream_notes s ! i))"
proof -
  from assms obtain mid
    where mid: "apply_slurs (stream_slurs s) (map converted_note (stream_notes s)) = Inr mid"
      and ns: "ns = map2 resolve_marking (stream_notes s) mid"
    by (auto simp: infer_articulations_def split: sum.splits)
  note r = apply_slurs_result [OF mid]
  show "length ns = length (stream_notes s)" using r ns by simp
  show "ns ! i = resolve_marking (stream_notes s ! i)
                    (if \<exists>sl\<in>set (stream_slurs s). i \<in> set (butlast sl)
                     then set_articulation LEGATO (converted_note (stream_notes s ! i))
                     else converted_note (stream_notes s ! i))"
    if "i < length (stream_notes s)"
    using that r ns by simp
qed

lemma infer_articulations_succeeds:
  assumes "\<forall>sl\<in>set (stream_slurs s). \<forall>i\<in>set (butlast sl). i < length (stream_notes s)"
  shows "\<exists>ns. infer_articulations s = Inr ns"
proof -
  have "\<exists>mid. apply_slurs (stream_slurs s) (map converted_note (stream_notes s)) = Inr mid"
    using assms by (intro apply_slurs_succeeds) simp
  then show ?thesis by (auto simp: infer_articulations_def)
qed

lemma resolve_marking_unmarked:
  "articulations r = [] \<Longrightarrow> resolve_marking r n = n"
  by (simp add: resolve_marking_def)

lemma resolve_marking_both:
  "Staccato \<in> set (articulations r) \<Longrightarrow> Tenuto \<in> set (articulations r) \<Longrightarrow>
     resolve_marking r n = set_articulation MEZZO_STACCATO n"
  by (auto simp: resolve_marking_def list_ex_iff)

lemma resolve_marking_first:
  assumes "\<not> (Staccato \<in> set (articulations r) \<and> Tenuto \<in> set (articulations r))"
    and "find (\<lambda>a. MUSIC21_ARTICULATION_MAPPING a \<noteq> None) (articulations r) = Some a"
    and "MUSIC21_ARTICULATION_MAPPING a = Some x"
  shows "resolve_marking r n = set_articulation x n"
proof -
  have "articulations r \<noteq> []" using assms(2) by auto
  moreover have "\<not> (list_ex (\<lambda>a. a = Staccato) (articulations r)
                     \<and> list_ex (\<lambda>a. a = Tenuto) (articulations r))"
    using assms(1) by (simp add: list_ex_iff)
  ultimately show ?thesis using assms(2,3) by (auto simp: resolve_marking_def)
qed

lemma mapping_range:
  "MUSIC21_ARTICULATION_MAPPING a = Some x \<Longrightarrow> 0 < x \<and> x \<le> 1"
  by (auto simp: MUSIC21_ARTICULATION_MAPPING_def STACCATISSIMO_def STACCATO_def
      NON_LEGATO_def TENUTO_def Fract_of_int_quotient split: if_splits)

lemma resolve_marking_range:
  assumes "0 < articulation n \<and> articulation n \<le> 1"
  shows "0 < articulation (resolve_marking r n) \<and> articulation (resolve_marking r n) \<le> 1"
proof -
  have "resolve_marking r n = n
        \<or> resolve_marking r n = set_articulation MEZZO_STACCATO n
        \<or> (\<exists>a x. MUSIC21_ARTICULATION_MAPPING a = Some x
                  \<and> resolve_marking r n = set_articulation x n)"
    by (auto simp: resolve_marking_def split: option.splits)
  then show ?thesis
    using assms mapping_range
    by (auto simp: set_articulation_def MEZZO_STACCATO_def Fract_of_int_quotient)
qed

lemma infer_articulations_range:
  assumes "infer_articulations s = Inr ns" and "n \<in> set ns"
  shows "0 < articulation n \<and> articulation n \<le> 1"
proof -
  from assms(2) obtain i where i: "i < length ns" and n: "n = ns ! i"
    by (auto simp: in_set_conv_nth)
  have len: "length ns = length (stream_notes s)"
    by (rule infer_articulations_nth(1) [OF assms(1)])
  have base: "0 < articulation (converted_note x) \<and> articulation (converted_note x) \<le> 1"
    "0 < articulation (set_articulation LEGATO (converted_note x))
       \<and> articulation (set_articulation LEGATO (converted_note x)) \<le> 1" for x
    by (simp_all add: converted_note_def Note_init_default_def Note_init_def NON_LEGATO_def
        LEGATO_def set_articulation_def Fract_of_int_quotient)
  show ?thesis
    unfolding n infer_articulations_nth(2) [OF assms(1) i [unfolded len]]
    by (intro resolve_marking_range) (simp add: base)
qed

lemma resolve_marking_keeps:
  "pitch (resolve_marking r n) = pitch n"
  "offset (resolve_marking r n) = offset n"
  "duration (resolve_marking r n) = duration n"
  by (simp_all add: resolve_marking_def set_articulation_def split: option.splits)

lemma infer_articulations_fields:
  assumes "infer_articulations s = Inr ns" and "i < length (stream_notes s)"
  shows "pitch (ns ! i) = m21_pitch (stream_notes s ! i)"
    and "offset (ns ! i) = m21_offset (stream_notes s ! i) / 4"
    and "duration (ns ! i) = quarterLength (stream_notes s ! i) / 4"
  unfolding infer_articulations_nth(2) [OF assms] resolve_marking_keeps
  by (simp_all add: set_articulation_def converted_note_def Note_init_default_def
      Note_init_def)

lemma unmarked_note_articulation:
  assumes "infer_articulations s = Inr ns" and "i < length (stream_notes s)"
    and "articulations (stream_notes s ! i) = []"
  shows "articulation (ns ! i)
           = (if \<exists>sl\<in>set (stream_slurs s). i \<in> set (butlast sl) then LEGATO
              else NON_LEGATO)"
  unfolding infer_articulations_nth(2) [OF assms(1,2)] resolve_marking_unmarked [OF assms(3)]
  by (simp add: set_articulation_def converted_note_def Note_init_default_def Note_init_def)

text \<open>
  C4. The claim as stated: every constructed note has a positive duration and an
  articulation in (0, 1], and constructing any other note fails. The constructor checks
  nothing: a duration of -1 with an articulation of 2 is stored as given, and a score
  note of quarter-length 0 is converted, without error, to a note of duration 0.
\<close>

theorem note_unchecked_counterexample:
  "duration (Note_init \<lparr>pitch_name = ''A4'', freq440 = 440\<rparr> 0 (- 1) 2) = - 1
   \<and> articulation (Note_init \<lparr>pitch_name = ''A4'', freq440 = 440\<rparr> 0 (- 1) 2) = 2
   \<and> \<not> 0 < duration (Note_init \<lparr>pitch_name = ''A4'', freq440 = 440\<rparr> 0 (- 1) 2)
   \<and> \<not> articulation (Note_init \<lparr>pitch_name = ''A4'', freq440 = 440\<rparr> 0 (- 1) 2) \<le> 1
   \<and> from_stream \<lparr>stream_notes = [\<lparr>m21_pitch = \<lparr>pitch_name = ''A4'', freq440 = 440\<rparr>,
                                    m21_offset = 0, quarterLength = 0,
                                    articulations = []\<rparr>],
                   stream_slurs = [], stream_tempo = None\<rparr>
       = Inr \<lparr>melody_notes = [\<lparr>pitch = \<lparr>pitch_name = ''A4'', freq440 = 440\<rparr>, offset = 0,
                                duration = 0, articulation = Fract 5 7\<rparr>],
              tempo = \<lparr>subdivision = Fract 1 4, beats_per_minute = 120\<rparr>\<rparr>"
  by code_simp

text \<open>
  C4, amended. Whenever the notes held by the slurs belong to the stream, the conversion
  builds one note for each note of the score, without error whatever the
  quarter-lengths are: its pitch is the score note's, its offset and duration are the
  score note's offset and quarter-length divided by 4, and its articulation lies in
  (0, 1]. So its duration is positive exactly when the quarter-length is, and a
  quarter-length that is not positive is converted rather than rejected. These notes,
  sorted by offset, are the notes of the melody when \<open>from_stream\<close> returns one.
\<close>

theorem converted_notes_unchecked:
  assumes "\<forall>sl\<in>set (stream_slurs s). \<forall>i\<in>set (butlast sl). i < length (stream_notes s)"
  shows "\<exists>ns. infer_articulations s = Inr ns \<and> length ns = length (stream_notes s)
           \<and> (\<forall>i<length (stream_notes s).
                 pitch (ns ! i) = m21_pitch (stream_notes s ! i)
                 \<and> offset (ns ! i) = m21_offset (stream_notes s ! i) / 4
                 \<and> duration (ns ! i) = quarterLength (stream_notes s ! i) / 4
                 \<and> (0 < duration (ns ! i) \<longleftrightarrow> 0 < quarterLength (stream_notes s ! i))
                 \<and> 0 < articulation (ns ! i) \<and> articulation (ns ! i) \<le> 1)
           \<and> (\<forall>m. from_stream s = Inr m \<longrightarrow> melody_notes m = sort_key offset ns)"
proof -
  from infer_articulations_succeeds [OF assms]
  obtain ns where ns: "infer_articulations s = Inr ns" ..
  have len: "length ns = length (stream_notes s)"
    by (rule infer_articulations_nth(1) [OF ns])
  have each: "pitch (ns ! i) = m21_pitch (stream_notes s ! i)
              \<and> offset (ns ! i) = m21_offset (stream_notes s ! i) / 4
              \<and> duration (ns ! i) = quarterLength (stream_notes s ! i) / 4
              \<and> (0 < duration (ns ! i) \<longleftrightarrow> 0 < quarterLength (stream_notes s ! i))
              \<and> 0 < articulation (ns ! i) \<and> articulation (ns ! i) \<le> 1"
    if i: "i < length (stream_notes s)" for i
  proof -
    have "ns ! i \<in> set ns" using i len by simp
    then have a: "0 < articulation (ns ! i) \<and> articulation (ns ! i) \<le> 1"
      by (rule infer_articulations_range [OF ns])
    note f = infer_articulations_fields [OF ns i]
    have pos: "0 < duration (ns ! i) \<longleftrightarrow> 0 < quarterLength (stream_notes s ! i)"
      unfolding f(3) by simp
    show ?thesis by (intro conjI f pos a [THEN conjunct1] a [THEN conjunct2])
  qed
  have sorted: "melody_notes m = sort_key offset ns" if "from_stream s = Inr m" for m
    using that by (auto simp: from_stream_def ns Melody_init_def split: sum.splits)
  show ?thesis using ns len each sorted by blast
qed

theorem converted_notes_unchecked_witness:
  "\<exists>ns m.
     infer_articulations
       \<lparr>stream_notes =
          [\<lparr>m21_pitch = \<lparr>pitch_name = ''A4'', freq440 = 440\<rparr>, m21_offset = 0,
            quarterLength = 0, articulations = [Tenuto]\<rparr>,
           \<lparr>m21_pitch = \<lparr>pitch_name = ''B4'', freq440 = 494\<rparr>, m21_offset = 0,
            quarterLength = 1, articulations = []\<rparr>],
        stream_slurs = [[0, 1]], stream_tempo = None\<rparr> = Inr ns
     \<and> from_stream
       \<lparr>stream_notes =
          [\<lparr>m21_pitch = \<lparr>pitch_name = ''A4'', freq440 = 440\<rparr>, m21_offset = 0,
            quarterLength = 0, articulations = [Tenuto]\<rparr>,
           \<lparr>m21_pitch = \<lparr>pitch_name = ''B4'', freq440 = 494\<rparr>, m21_offset = 0,
            quarterLength = 1, articulations = []\<rparr>],
        stream_slurs = [[0, 1]], stream_tempo = None\<rparr> = Inr m
     \<and> melody_notes m = sort_key offset ns \<and> length ns = 2
     \<and> duration (ns ! 0) = 0 \<and> duration (ns ! 0) \<le> 0
     \<and> 0 < articulation (ns ! 0) \<and> articulation (ns ! 0) \<le> 1
     \<and> duration (ns ! 1) = Fract 1 4 \<and> 0 < duration (ns ! 1)"
proof -
  let ?s = "\<lparr>stream_notes =
          [\<lparr>m21_pitch = \<lparr>pitch_name = ''A4'', freq440 = 440\<rparr>, m21_offset = 0,
            quarterLength = 0, articulations = [Tenuto]\<rparr>,
           \<lparr>m21_pitch = \<lparr>pitch_name = ''B4'', freq440 = 494\<rparr>, m21_offset = 0,
            quarterLength = 1, articulations = []\<rparr>],
        stream_slurs = [[0, 1]], stream_tempo = None\<rparr>"
  have wf: "\<forall>sl\<in>set (stream_slurs ?s). \<forall>i\<in>set (butlast sl). i < length (stream_notes ?s)"
    by simp
  from converted_notes_unchecked [OF wf] obtain ns
    where ns: "infer_articulations ?s = Inr ns"
      and len: "length ns = length (stream_notes ?s)"
      and each: "\<forall>i<length (stream_notes ?s).
                 pitch (ns ! i) = m21_pitch (stream_notes ?s ! i)
                 \<and> offset (ns ! i) = m21_offset (stream_notes ?s ! i) / 4
                 \<and> duration (ns ! i) = quarterLength (stream_notes ?s ! i) / 4
                 \<and> (0 < duration (ns ! i) \<longleftrightarrow> 0 < quarterLength (stream_notes ?s ! i))
                 \<and> 0 < articulation (ns ! i) \<and> articulation (ns ! i) \<le> 1"
      and sorted: "\<forall>m. from_stream ?s = Inr m \<longrightarrow> melody_notes m = sort_key offset ns"
    by blast
  have "\<exists>m. from_stream ?s = Inr m"
    unfolding from_stream_def ns by (simp add: get_tempo_from_stream_def)
  then obtain m where m: "from_stream ?s = Inr m" ..
  have srt: "melody_notes m = sort_key offset ns" using sorted m by blast
  have i0: "(0::nat) < length (stream_notes ?s)" and i1: "(1::nat) < length (stream_notes ?s)"
    by simp_all
  have q: "quarterLength (stream_notes ?s ! 0) / 4 = 0"
    "quarterLength (stream_notes ?s ! 1) / 4 = Fract 1 4"
    "(0::rat) < quarterLength (stream_notes ?s ! 1)"
    by (simp_all add: Fract_of_int_quotient)
  have n0: "duration (ns ! 0) = 0" "duration (ns ! 0) \<le> 0"
    "0 < articulation (ns ! 0)" "articulation (ns ! 0) \<le> 1"
    using each [rule_format, OF i0] q(1) by simp_all
  have n1: "duration (ns ! 1) = Fract 1 4" "0 < duration (ns ! 1)"
    using each [rule_format, OF i1] q(2,3) by simp_all
  have l2: "length ns = 2" using len by simp
  show ?thesis using ns m srt l2 n0 n1 by blast
qed

text \<open>
  C7. The claim: after conversion every unmarked note under a slur other than the
  slur's last note is legato, so that three slurred notes, the last one staccato, end
  with the ratios 1, 1 and 2/7. The code makes legato the notes the slur's spanner
  holds, other than the last of them. For the three-note slur of a score file the
  spanner holds the first and the third note: the note in the middle is under the slur,
  is not its last note, carries no mark, and keeps the default 5/7.
\<close>

theorem slur_middle_note_not_legato:
  "from_stream
     \<lparr>stream_notes =
        [\<lparr>m21_pitch = \<lparr>pitch_name = ''C4'', freq440 = 262\<rparr>, m21_offset = 0,
          quarterLength = 1, articulations = []\<rparr>,
         \<lparr>m21_pitch = \<lparr>pitch_name = ''D4'', freq440 = 294\<rparr>, m21_offset = 1,
          quarterLength = 1, articulations = []\<rparr>,
         \<lparr>m21_pitch = \<lparr>pitch_name = ''E4'', freq440 = 330\<rparr>, m21_offset = 2,
          quarterLength = 1, articulations = [Staccato]\<rparr>],
      stream_slurs = [[0, 2]], stream_tempo = None\<rparr>
   = Inr \<lparr>melody_notes =
            [\<lparr>pitch = \<lparr>pitch_name = ''C4'', freq440 = 262\<rparr>, offset = 0,
              duration = Fract 1 4, articulation = 1\<rparr>,
             \<lparr>pitch = \<lparr>pitch_name = ''D4'', freq440 = 294\<rparr>, offset = Fract 1 4,
              duration = Fract 1 4, articulation = Fract 5 7\<rparr>,
             \<lparr>pitch = \<lparr>pitch_name = ''E4'', freq440 = 330\<rparr>, offset = Fract 1 2,
              duration = Fract 1 4, articulation = Fract 2 7\<rparr>],
          tempo = \<lparr>subdivision = Fract 1 4, beats_per_minute = 120\<rparr>\<rparr>
   \<and> notes_under_slur [0, 2] = [0, 1, 2]
   \<and> butlast (notes_under_slur [0, 2]) = [0, 1]"
  by code_simp

text \<open>
  C8. A note whose marks include both a staccato and a tenuto is resolved to
  mezzo-staccato, ratio 3/7, and to neither 2/7 nor 6/7, wherever the two marks stand
  among its marks, whatever articulation the note had before, and so also for every such
  note of a converted score, slurred or not.
\<close>

theorem staccato_tenuto_mezzo_staccato:
  assumes "Staccato \<in> set (articulations r)" and "Tenuto \<in> set (articulations r)"
  shows "articulation (resolve_marking r n) = Fract 3 7
         \<and> articulation (resolve_marking r n) \<noteq> Fract 2 7
         \<and> articulation (resolve_marking r n) \<noteq> Fract 6 7
         \<and> (\<forall>s ns i. infer_articulations s = Inr ns \<longrightarrow> i < length (stream_notes s) \<longrightarrow>
                stream_notes s ! i = r \<longrightarrow> articulation (ns ! i) = Fract 3 7)"
proof -
  have one: "articulation (resolve_marking r k) = Fract 3 7" for k
    by (simp add: resolve_marking_both [OF assms] set_articulation_def MEZZO_STACCATO_def)
  have ne: "Fract 3 7 \<noteq> Fract 2 7" "Fract 3 7 \<noteq> Fract 6 7"
    by (simp_all add: eq_rat)
  have "articulation (ns ! i) = Fract 3 7"
    if "infer_articulations s = Inr ns" "i < length (stream_notes s)" "stream_notes s ! i = r"
    for s ns i
    unfolding infer_articulations_nth(2) [OF that(1,2)] that(3) by (rule one)
  then show ?thesis using one [of n] ne by simp
qed

theorem staccato_tenuto_mezzo_staccato_witness:
  "Staccato \<in> set [Tenuto, OtherArticulation ''Accent'', Staccato]
   \<and> Tenuto \<in> set [Tenuto, OtherArticulation ''Accent'', Staccato]
   \<and> (\<exists>ns. infer_articulations
          \<lparr>stream_notes =
             [\<lparr>m21_pitch = \<lparr>pitch_name = ''C4'', freq440 = 262\<rparr>, m21_offset = 0,
               quarterLength = 1,
               articulations = [Tenuto, OtherArticulation ''Accent'', Staccato]\<rparr>,
              \<lparr>m21_pitch = \<lparr>pitch_name = ''D4'', freq440 = 294\<rparr>, m21_offset = 1,
               quarterLength = 1, articulations = []\<rparr>],
           stream_slurs = [[0, 1]], stream_tempo = None\<rparr> = Inr ns
        \<and> articulation (ns ! 0) = Fract 3 7)"
proof -
  let ?r = "\<lparr>m21_pitch = \<lparr>pitch_name = ''C4'', freq440 = 262\<rparr>, m21_offset = 0,
          quarterLength = 1,
          articulations = [Tenuto, OtherArticulation ''Accent'', Staccato]\<rparr>"
  let ?s = "\<lparr>stream_notes =
             [?r, \<lparr>m21_pitch = \<lparr>pitch_name = ''D4'', freq440 = 294\<rparr>, m21_offset = 1,
               quarterLength = 1, articulations = []\<rparr>],
           stream_slurs = [[0, 1]], stream_tempo = None\<rparr>"
  have st: "Staccato \<in> set [Tenuto, OtherArticulation ''Accent'', Staccato]" by simp
  have te: "Tenuto \<in> set [Tenuto, OtherArticulation ''Accent'', Staccato]" by simp
  obtain ns where ns: "infer_articulations ?s = Inr ns"
    using infer_articulations_succeeds [of ?s] by auto
  have pos: "0 < length (stream_notes ?s)" "stream_notes ?s ! 0 = ?r" by simp_all
  have "articulation (ns ! 0) = Fract 3 7"
    using staccato_tenuto_mezzo_staccato [of ?r, THEN conjunct2, THEN conjunct2,
        THEN conjunct2, rule_format, OF _ _ ns pos] st te
    by simp
  with ns have r: "\<exists>ns. infer_articulations ?s = Inr ns \<and> articulation (ns ! 0) = Fract 3 7"
    by blast
  show ?thesis by (intro conjI st te r)
qed

end
